theory Spec2Isabelle
  imports Main "HOL-Library.AList" "HOL-Library.Sublist" "HOL-Library.Word"
begin

unbundle bit_operations_syntax

section \<open>Python values and exceptions\<close>

text \<open>
  The tools exchange JSON-like Python values with the client library. Strings are
  modelled over 8-bit code points; floats do not occur in the fields the tools read.
  \<open>PNone\<close> is Python's \<open>None\<close>; a dict is an association list in insertion order.
\<close>

datatype pyval =
    PNone
  | PBool bool
  | PInt int
  | PStr string
  | PList "pyval list"
  | PDict "(string \<times> pyval) list"

type_synonym pydict = "(string \<times> pyval) list"

text \<open>Python truthiness, as used by \<open>if not version\<close> and \<open>if not users\<close>.\<close>

fun truthy :: "pyval \<Rightarrow> bool" where
  "truthy PNone = False"
| "truthy (PBool b) = b"
| "truthy (PInt i) = (i \<noteq> 0)"
| "truthy (PStr s) = (s \<noteq> [])"
| "truthy (PList xs) = (xs \<noteq> [])"
| "truthy (PDict kvs) = (kvs \<noteq> [])"

text \<open>
  Exceptions by class, each with the text \<open>str(e)\<close> gives. \<open>OtherException\<close> stands for
  any further subclass of \<open>Exception\<close> the client library may raise.
\<close>

datatype exc =
    TaigaException string
  | PermissionError string
  | ValueError string
  | TypeError string
  | AttributeError string
  | RuntimeError string
  | KeyError string
  | OtherException string

fun str_exc :: "exc \<Rightarrow> string" where
  "str_exc (TaigaException m) = m"
| "str_exc (PermissionError m) = m"
| "str_exc (ValueError m) = m"
| "str_exc (TypeError m) = m"
| "str_exc (AttributeError m) = m"
| "str_exc (RuntimeError m) = m"
| "str_exc (KeyError m) = m"
| "str_exc (OtherException m) = m"

fun is_TaigaException :: "exc \<Rightarrow> bool" where
  "is_TaigaException (TaigaException m) = True"
| "is_TaigaException e = False"

fun is_ValueError :: "exc \<Rightarrow> bool" where
  "is_ValueError (ValueError m) = True"
| "is_ValueError e = False"

fun type_name :: "pyval \<Rightarrow> string" where
  "type_name PNone = ''NoneType''"
| "type_name (PBool b) = ''bool''"
| "type_name (PInt i) = ''int''"
| "type_name (PStr s) = ''str''"
| "type_name (PList xs) = ''list''"
| "type_name (PDict kvs) = ''dict''"

definition no_attribute :: "pyval \<Rightarrow> string \<Rightarrow> exc" where
  "no_attribute v a =
     AttributeError ([CHR 0x27] @ type_name v @ [CHR 0x27] @ '' object has no attribute ''
        @ [CHR 0x27] @ a @ [CHR 0x27])"

text \<open>\<open>v.get(key, default)\<close>: only a dict has the method.\<close>

fun py_get :: "pyval \<Rightarrow> string \<Rightarrow> pyval \<Rightarrow> exc + pyval" where
  "py_get (PDict kvs) k d = Inr (case map_of kvs k of None \<Rightarrow> d | Some v \<Rightarrow> v)"
| "py_get v k d = Inl (no_attribute v ''get'')"

text \<open>\<open>str(n)\<close> for an integer, used by the f-strings of the messages.\<close>

fun str_nat :: "nat \<Rightarrow> string" where
  "str_nat n =
     (if n < 10 then [''0123456789'' ! n]
      else str_nat (n div 10) @ [''0123456789'' ! (n mod 10)])"

declare str_nat.simps [simp del]

definition str_int :: "int \<Rightarrow> string" where
  "str_int i = (if i < 0 then CHR ''-'' # str_nat (nat (- i)) else str_nat (nat i))"

section \<open>The client library and the process state\<close>

text \<open>
  Modelled from the spec: \<open>TaigaClientWrapper\<close> (module \<open>src.taiga_client\<close>, not among
  the sources). A client handle is bound to one host and one set of credentials; its
  \<open>is_authenticated\<close> flag is set true only after a successful login exchange.
\<close>

record client_wrapper =
  cw_host :: string
  cw_username :: "string option"
  is_authenticated :: bool

definition TaigaClientWrapper :: "string \<Rightarrow> client_wrapper" where
  "TaigaClientWrapper host = \<lparr>cw_host = host, cw_username = None, is_authenticated = False\<rparr>"

datatype resource = Project | UserStory | Task | Issue | Epic | Milestone

text \<open>
  The project-tracker REST client (\<open>pytaigaclient\<close>) is an external collaborator: any
  deterministic backend with state \<open>'b\<close>. Every operation either raises or returns,
  and may change the backend's state. \<open>edit_name\<close> is the module and qualified name of
  the \<open>edit\<close> method of a resource, as the interpreter prints it in a \<open>TypeError\<close>.
\<close>

record 'b taiga_api =
  auth_login :: "string \<Rightarrow> string \<Rightarrow> string \<Rightarrow> 'b \<Rightarrow> (exc + bool) \<times> 'b"
  users_me :: "client_wrapper \<Rightarrow> 'b \<Rightarrow> (exc + pyval) \<times> 'b"
  api_get :: "client_wrapper \<Rightarrow> resource \<Rightarrow> int \<Rightarrow> 'b \<Rightarrow> (exc + pyval) \<times> 'b"
  api_edit :: "client_wrapper \<Rightarrow> resource \<Rightarrow> int \<Rightarrow> pyval \<Rightarrow> pydict \<Rightarrow> 'b \<Rightarrow> (exc + pyval) \<times> 'b"
  memberships_list :: "client_wrapper \<Rightarrow> pydict \<Rightarrow> 'b \<Rightarrow> (exc + pyval list) \<times> 'b"
  edit_name :: "resource \<Rightarrow> string"

text \<open>The calls issued to the client library, in order.\<close>

datatype api_call =
    CallLogin string string string
  | CallUsersMe
  | CallGet resource int
  | CallEdit resource int pyval pydict
  | CallMembershipsList pydict

text \<open>
  The process state: the module-level dict \<open>active_sessions\<close> of \<open>common.py\<close>, the backend,
  and the log of calls issued so far.
\<close>

record 'b world =
  active_sessions :: "string \<rightharpoonup> client_wrapper"
  backend :: 'b
  calls :: "api_call list"

section \<open>common.py\<close>

definition get_authenticated_client ::
  "(string \<rightharpoonup> client_wrapper) \<Rightarrow> string \<Rightarrow> exc + client_wrapper" where
  "get_authenticated_client sessions session_id =
     (case sessions session_id of
        None \<Rightarrow>
          Inl (PermissionError (''Invalid or expired session ID: '' @ [CHR 0x27] @ session_id
                 @ [CHR 0x27] @ ''. Please login again.''))
      | Some client \<Rightarrow>
          if \<not> is_authenticated client
          then Inl (PermissionError (''Invalid or expired session ID: '' @ [CHR 0x27]
                 @ session_id @ [CHR 0x27] @ ''. Please login again.''))
          else Inr client)"

definition handle_taiga_exception :: "string \<Rightarrow> string \<Rightarrow> string \<Rightarrow> exc \<Rightarrow> exc" where
  "handle_taiga_exception operation entity_type entity_id e = e"

definition handle_general_exception :: "string \<Rightarrow> string \<Rightarrow> string \<Rightarrow> exc \<Rightarrow> exc" where
  "handle_general_exception operation entity_type entity_id e =
     RuntimeError (''Server error '' @ operation @ '' '' @ entity_type @ '': '' @ str_exc e)"

text \<open>
  The two handlers every tool body ends with:
  \<open>except TaigaException as e: handle_taiga_exception(...)\<close>, then
  \<open>except Exception as e: handle_general_exception(...)\<close>.
\<close>

definition except_handlers :: "string \<Rightarrow> string \<Rightarrow> string \<Rightarrow> exc \<Rightarrow> exc" where
  "except_handlers operation entity_type entity_id e =
     (if is_TaigaException e then handle_taiga_exception operation entity_type entity_id e
      else handle_general_exception operation entity_type entity_id e)"

section \<open>auth.py\<close>

text \<open>
  Modelled from the spec: the handle's login exchange (\<open>TaigaClientWrapper.login\<close>, not
  among the sources). The backend decides the outcome; the flag becomes true only when
  the exchange succeeds.
\<close>

definition wrapper_login ::
  "'b taiga_api \<Rightarrow> client_wrapper \<Rightarrow> string \<Rightarrow> string \<Rightarrow> 'b
     \<Rightarrow> (exc + bool \<times> client_wrapper) \<times> 'b" where
  "wrapper_login api wrapper username password b =
     (case auth_login api (cw_host wrapper) username password b of
        (Inl e, b') \<Rightarrow> (Inl e, b')
      | (Inr ok, b') \<Rightarrow>
          (Inr (ok, if ok then wrapper\<lparr>cw_username := Some username, is_authenticated := True\<rparr>
                    else wrapper), b'))"

text \<open>
  \<open>str(uuid.uuid4())\<close>: the 128-bit value is drawn by the standard library and is a
  parameter of \<open>login\<close>; its text is 32 lower-case hexadecimal digits in groups of
  8-4-4-4-12.
\<close>

definition hex_digit :: "nat \<Rightarrow> char" where
  "hex_digit n = ''0123456789abcdef'' ! n"

definition uuid_hex :: "128 word \<Rightarrow> string" where
  "uuid_hex u = map (\<lambda>i. hex_digit (unat (drop_bit (4 * (31 - i)) u AND 15))) [0..<32]"

definition str_uuid :: "128 word \<Rightarrow> string" where
  "str_uuid u =
     (let h = uuid_hex u
      in take 8 h @ ''-'' @ take 4 (drop 8 h) @ ''-'' @ take 4 (drop 12 h) @ ''-''
         @ take 4 (drop 16 h) @ ''-'' @ drop 20 h)"

definition login ::
  "'b taiga_api \<Rightarrow> string \<Rightarrow> string \<Rightarrow> string \<Rightarrow> 128 word \<Rightarrow> 'b world
     \<Rightarrow> (exc + pyval) \<times> 'b world" where
  "login api host username password uuid4 w =
     (case wrapper_login api (TaigaClientWrapper host) username password (backend w) of
        (r, b') \<Rightarrow>
          (let w1 = w\<lparr>backend := b', calls := calls w @ [CallLogin host username password]\<rparr>
           in case r of
                Inr (login_successful, wrapper) \<Rightarrow>
                  if login_successful then
                    (let new_session_id = str_uuid uuid4
                     in (Inr (PDict [(''session_id'', PStr new_session_id)]),
                         w1\<lparr>active_sessions := (active_sessions w1)(new_session_id \<mapsto> wrapper)\<rparr>))
                  else
                    (Inl (RuntimeError (''An unexpected server error occurred during login: ''
                            @ str_exc (RuntimeError ''Login failed for an unknown reason.''))),
                     w1)
              | Inl e \<Rightarrow>
                  if is_ValueError e \<or> is_TaigaException e then (Inl e, w1)
                  else (Inl (RuntimeError (''An unexpected server error occurred during login: ''
                               @ str_exc e)), w1)))"

definition logout :: "string \<Rightarrow> 'b world \<Rightarrow> pyval \<times> 'b world" where
  "logout session_id w =
     (let client_wrapper = active_sessions w session_id;
          w1 = w\<lparr>active_sessions := (active_sessions w)(session_id := None)\<rparr>
      in if client_wrapper \<noteq> None
         then (PDict [(''status'', PStr ''logged_out''), (''session_id'', PStr session_id)], w1)
         else (PDict [(''status'', PStr ''session_not_found''), (''session_id'', PStr session_id)],
               w1))"


section \<open>Strings\<close>

text \<open>\<open>s.split(',')\<close>: one more piece than there are commas.\<close>

fun split_comma :: "string \<Rightarrow> string list" where
  "split_comma [] = [[]]"
| "split_comma (c # cs) =
     (if c = CHR '','' then [] # split_comma cs
      else (case split_comma cs of [] \<Rightarrow> [[c]] | p # ps \<Rightarrow> (c # p) # ps))"

text \<open>\<open>str.isspace\<close> on the code points below 256, and \<open>s.strip()\<close>.\<close>

definition is_space :: "char \<Rightarrow> bool" where
  "is_space c = (of_char c \<in> {9, 10, 11, 12, 13, 28, 29, 30, 31, 32, 133, 160 :: nat})"

definition strip :: "string \<Rightarrow> string" where
  "strip s = rev (dropWhile is_space (rev (dropWhile is_space s)))"

text \<open>\<open>s.lower()\<close> on the code points below 256.\<close>

definition lower_char :: "char \<Rightarrow> char" where
  "lower_char c =
     (let n = of_char c :: nat
      in if (65 \<le> n \<and> n \<le> 90) \<or> (192 \<le> n \<and> n \<le> 222 \<and> n \<noteq> 215) then char_of (n + 32)
         else c)"

definition lower :: "string \<Rightarrow> string" where
  "lower s = map lower_char s"

fun py_lower :: "pyval \<Rightarrow> exc + string" where
  "py_lower (PStr s) = Inr (lower s)"
| "py_lower v = Inl (no_attribute v ''lower'')"

text \<open>\<open>q in s\<close> for strings: \<open>q\<close> occurs in \<open>s\<close> as a contiguous piece.\<close>

fun str_in :: "string \<Rightarrow> string \<Rightarrow> bool" where
  "str_in q [] = (q = [])"
| "str_in q (c # cs) = (prefix q (c # cs) \<or> str_in q cs)"

text \<open>\<open>d.update(kwargs)\<close> on dicts in insertion order.\<close>

definition dict_update :: "pydict \<Rightarrow> pydict \<Rightarrow> pydict" where
  "dict_update d kwargs = fold (\<lambda>(k, v). AList.update k v) kwargs d"

section \<open>The update tools\<close>

definition call_get ::
  "'b taiga_api \<Rightarrow> client_wrapper \<Rightarrow> resource \<Rightarrow> int \<Rightarrow> 'b world \<Rightarrow> (exc + pyval) \<times> 'b world" where
  "call_get api cw res entity_id w =
     (case api_get api cw res entity_id (backend w) of
        (r, b') \<Rightarrow> (r, w\<lparr>backend := b', calls := calls w @ [CallGet res entity_id]\<rparr>))"

definition call_edit ::
  "'b taiga_api \<Rightarrow> client_wrapper \<Rightarrow> resource \<Rightarrow> int \<Rightarrow> pyval \<Rightarrow> pydict \<Rightarrow> 'b world
     \<Rightarrow> (exc + pyval) \<times> 'b world" where
  "call_edit api cw res entity_id version changes w =
     (case api_edit api cw res entity_id version changes (backend w) of
        (r, b') \<Rightarrow>
          (r, w\<lparr>backend := b', calls := calls w @ [CallEdit res entity_id version changes]\<rparr>))"

text \<open>
  The interpreter refuses a call that gives one keyword twice, before the callee runs:
  \<open>edit(project_id=..., version=version, **kwargs)\<close> with a key \<open>version\<close> in
  \<open>kwargs\<close>. The text starts with the callee's module and qualified name, which belong
  to the client library.
\<close>

definition multiple_values :: "string \<Rightarrow> string \<Rightarrow> exc" where
  "multiple_values callee k =
     TypeError (callee @ ''() got multiple values for keyword argument '' @ [CHR 0x27] @ k
        @ [CHR 0x27])"

text \<open>
  The \<open>try\<close> block of \<open>update_project\<close>, \<open>update_user_story\<close>, \<open>update_issue\<close>,
  \<open>update_epic\<close>, \<open>update_milestone\<close> and \<open>update_task\<close>, which the six tools repeat
  word for word up to the resource, its name in the messages, and whether the changes
  are passed to \<open>edit\<close> as keywords (\<open>**kwargs\<close>) or as one dict (\<open>data=\<close>).
\<close>

definition update_try ::
  "'b taiga_api \<Rightarrow> client_wrapper \<Rightarrow> resource \<Rightarrow> string \<Rightarrow> bool \<Rightarrow> int \<Rightarrow> pydict \<Rightarrow> 'b world
     \<Rightarrow> (exc + pyval) \<times> 'b world" where
  "update_try api cw res entity_type as_keywords entity_id kwargs w =
     (if kwargs = [] then
        (case call_get api cw res entity_id w of
           (Inl e, w1) \<Rightarrow> (Inl (except_handlers ''updating'' entity_type (str_int entity_id) e), w1)
         | (Inr current, w1) \<Rightarrow> (Inr current, w1))
      else
        (case call_get api cw res entity_id w of
           (Inl e, w1) \<Rightarrow> (Inl (except_handlers ''updating'' entity_type (str_int entity_id) e), w1)
         | (Inr current, w1) \<Rightarrow>
             (case py_get current ''version'' PNone of
                Inl e \<Rightarrow>
                  (Inl (except_handlers ''updating'' entity_type (str_int entity_id) e), w1)
              | Inr version \<Rightarrow>
                  if \<not> truthy version then
                    (Inl (except_handlers ''updating'' entity_type (str_int entity_id)
                            (ValueError (''Could not determine version for '' @ entity_type
                               @ '' '' @ str_int entity_id))), w1)
                  else if as_keywords \<and> ''version'' \<in> set (map fst kwargs) then
                    (Inl (except_handlers ''updating'' entity_type (str_int entity_id)
                            (multiple_values (edit_name api res) ''version'')), w1)
                  else
                    (case call_edit api cw res entity_id version kwargs w1 of
                       (Inl e, w2) \<Rightarrow>
                         (Inl (except_handlers ''updating'' entity_type (str_int entity_id) e),
                          w2)
                     | (Inr updated, w2) \<Rightarrow> (Inr updated, w2)))))"

definition update_project ::
  "'b taiga_api \<Rightarrow> string \<Rightarrow> int \<Rightarrow> pydict \<Rightarrow> 'b world \<Rightarrow> (exc + pyval) \<times> 'b world" where
  "update_project api session_id project_id kwargs w =
     (case get_authenticated_client (active_sessions w) session_id of
        Inl e \<Rightarrow> (Inl e, w)
      | Inr taiga_client_wrapper \<Rightarrow>
          update_try api taiga_client_wrapper Project ''project'' True project_id kwargs w)"

definition update_user_story ::
  "'b taiga_api \<Rightarrow> string \<Rightarrow> int \<Rightarrow> pydict \<Rightarrow> 'b world \<Rightarrow> (exc + pyval) \<times> 'b world" where
  "update_user_story api session_id user_story_id kwargs w =
     (case get_authenticated_client (active_sessions w) session_id of
        Inl e \<Rightarrow> (Inl e, w)
      | Inr taiga_client_wrapper \<Rightarrow>
          update_try api taiga_client_wrapper UserStory ''user story'' True user_story_id kwargs w)"

definition update_issue ::
  "'b taiga_api \<Rightarrow> string \<Rightarrow> int \<Rightarrow> pydict \<Rightarrow> 'b world \<Rightarrow> (exc + pyval) \<times> 'b world" where
  "update_issue api session_id issue_id kwargs w =
     (case get_authenticated_client (active_sessions w) session_id of
        Inl e \<Rightarrow> (Inl e, w)
      | Inr taiga_client_wrapper \<Rightarrow>
          update_try api taiga_client_wrapper Issue ''issue'' False issue_id kwargs w)"

definition update_epic ::
  "'b taiga_api \<Rightarrow> string \<Rightarrow> int \<Rightarrow> pydict \<Rightarrow> 'b world \<Rightarrow> (exc + pyval) \<times> 'b world" where
  "update_epic api session_id epic_id kwargs w =
     (case get_authenticated_client (active_sessions w) session_id of
        Inl e \<Rightarrow> (Inl e, w)
      | Inr taiga_client_wrapper \<Rightarrow>
          update_try api taiga_client_wrapper Epic ''epic'' True epic_id kwargs w)"

definition update_milestone ::
  "'b taiga_api \<Rightarrow> string \<Rightarrow> int \<Rightarrow> pydict \<Rightarrow> 'b world \<Rightarrow> (exc + pyval) \<times> 'b world" where
  "update_milestone api session_id milestone_id kwargs w =
     (case get_authenticated_client (active_sessions w) session_id of
        Inl e \<Rightarrow> (Inl e, w)
      | Inr taiga_client_wrapper \<Rightarrow>
          update_try api taiga_client_wrapper Milestone ''milestone'' True milestone_id kwargs w)"

text \<open>
  \<open>update_task\<close> builds its change set from the named parameters that are not \<open>None\<close>,
  then adds \<open>kwargs\<close>. The comma-separated \<open>tags\<close> become a list of stripped, non-empty
  tags; a value without \<open>split\<close> raises before the \<open>try\<close> block.
\<close>

fun tags_list :: "pyval \<Rightarrow> exc + pyval" where
  "tags_list (PStr s) =
     Inr (PList (map PStr (map strip (filter (\<lambda>tag. strip tag \<noteq> []) (split_comma s)))))"
| "tags_list v = Inl (no_attribute v ''split'')"

definition set_if_given :: "string \<Rightarrow> pyval \<Rightarrow> pydict \<Rightarrow> pydict" where
  "set_if_given k v d = (if v \<noteq> PNone then AList.update k v d else d)"

definition task_update_data ::
  "pyval \<Rightarrow> pyval \<Rightarrow> pyval \<Rightarrow> pyval \<Rightarrow> pyval \<Rightarrow> pyval \<Rightarrow> pyval \<Rightarrow> pyval \<Rightarrow> pydict
     \<Rightarrow> exc + pydict" where
  "task_update_data subject description due_date tags assigned_to milestone_id status_id
      user_story_id kwargs =
     (let update_data = [];
          update_data = set_if_given ''subject'' subject update_data;
          update_data = set_if_given ''description'' description update_data;
          update_data = set_if_given ''due_date'' due_date update_data
      in case (if tags \<noteq> PNone
               then (case tags_list tags of
                       Inl e \<Rightarrow> Inl e
                     | Inr ts \<Rightarrow> Inr (AList.update ''tags'' ts update_data))
               else Inr update_data) of
           Inl e \<Rightarrow> Inl e
         | Inr update_data \<Rightarrow>
             (let update_data = set_if_given ''assigned_to'' assigned_to update_data;
                  update_data = set_if_given ''milestone'' milestone_id update_data;
                  update_data = set_if_given ''status'' status_id update_data;
                  update_data = set_if_given ''user_story'' user_story_id update_data
              in Inr (dict_update update_data kwargs)))"

definition update_task ::
  "'b taiga_api \<Rightarrow> string \<Rightarrow> int \<Rightarrow> pyval \<Rightarrow> pyval \<Rightarrow> pyval \<Rightarrow> pyval \<Rightarrow> pyval \<Rightarrow> pyval
     \<Rightarrow> pyval \<Rightarrow> pyval \<Rightarrow> pydict \<Rightarrow> 'b world \<Rightarrow> (exc + pyval) \<times> 'b world" where
  "update_task api session_id task_id subject description due_date tags assigned_to
      milestone_id status_id user_story_id kwargs w =
     (case get_authenticated_client (active_sessions w) session_id of
        Inl e \<Rightarrow> (Inl e, w)
      | Inr taiga_client_wrapper \<Rightarrow>
          (case task_update_data subject description due_date tags assigned_to milestone_id
                  status_id user_story_id kwargs of
             Inl e \<Rightarrow> (Inl e, w)
           | Inr update_data \<Rightarrow>
               update_try api taiga_client_wrapper Task ''task'' False task_id update_data w))"

section \<open>Assigning and unassigning\<close>

definition assign_user_story_to_user ::
  "'b taiga_api \<Rightarrow> string \<Rightarrow> int \<Rightarrow> int \<Rightarrow> 'b world \<Rightarrow> (exc + pyval) \<times> 'b world" where
  "assign_user_story_to_user api session_id user_story_id user_id w =
     update_user_story api session_id user_story_id [(''assigned_to'', PInt user_id)] w"

definition unassign_user_story_from_user ::
  "'b taiga_api \<Rightarrow> string \<Rightarrow> int \<Rightarrow> 'b world \<Rightarrow> (exc + pyval) \<times> 'b world" where
  "unassign_user_story_from_user api session_id user_story_id w =
     update_user_story api session_id user_story_id [(''assigned_to'', PNone)] w"

definition assign_issue_to_user ::
  "'b taiga_api \<Rightarrow> string \<Rightarrow> int \<Rightarrow> int \<Rightarrow> 'b world \<Rightarrow> (exc + pyval) \<times> 'b world" where
  "assign_issue_to_user api session_id issue_id user_id w =
     update_issue api session_id issue_id [(''assigned_to'', PInt user_id)] w"

definition unassign_issue_from_user ::
  "'b taiga_api \<Rightarrow> string \<Rightarrow> int \<Rightarrow> 'b world \<Rightarrow> (exc + pyval) \<times> 'b world" where
  "unassign_issue_from_user api session_id issue_id w =
     update_issue api session_id issue_id [(''assigned_to'', PNone)] w"

definition assign_epic_to_user ::
  "'b taiga_api \<Rightarrow> string \<Rightarrow> int \<Rightarrow> int \<Rightarrow> 'b world \<Rightarrow> (exc + pyval) \<times> 'b world" where
  "assign_epic_to_user api session_id epic_id user_id w =
     update_epic api session_id epic_id [(''assigned_to'', PInt user_id)] w"

definition unassign_epic_from_user ::
  "'b taiga_api \<Rightarrow> string \<Rightarrow> int \<Rightarrow> 'b world \<Rightarrow> (exc + pyval) \<times> 'b world" where
  "unassign_epic_from_user api session_id epic_id w =
     update_epic api session_id epic_id [(''assigned_to'', PNone)] w"

definition assign_task_to_user ::
  "'b taiga_api \<Rightarrow> string \<Rightarrow> int \<Rightarrow> int \<Rightarrow> 'b world \<Rightarrow> (exc + pyval) \<times> 'b world" where
  "assign_task_to_user api session_id task_id user_id w =
     update_task api session_id task_id PNone PNone PNone PNone (PInt user_id) PNone PNone PNone
       [] w"

definition unassign_task_from_user ::
  "'b taiga_api \<Rightarrow> string \<Rightarrow> int \<Rightarrow> 'b world \<Rightarrow> (exc + pyval) \<times> 'b world" where
  "unassign_task_from_user api session_id task_id w =
     update_task api session_id task_id PNone PNone PNone PNone PNone PNone PNone PNone [] w"

section \<open>Searching users and assigning by name\<close>

text \<open>
  One round of the loop of \<open>search_users\<close>: the three fields are read and lower-cased
  before the test; a member whose \<open>user\<close> is not a dict, or whose field is not a string,
  raises \<open>AttributeError\<close>.
\<close>

definition member_match :: "string \<Rightarrow> pyval \<Rightarrow> exc + pydict option" where
  "member_match query_lower member =
     (case py_get member ''user'' (PDict []) of
        Inl e \<Rightarrow> Inl e
      | Inr user \<Rightarrow>
     (case py_get user ''full_name'' (PStr []) of
        Inl e \<Rightarrow> Inl e
      | Inr v1 \<Rightarrow>
     (case py_lower v1 of
        Inl e \<Rightarrow> Inl e
      | Inr full_name \<Rightarrow>
     (case py_get user ''username'' (PStr []) of
        Inl e \<Rightarrow> Inl e
      | Inr v2 \<Rightarrow>
     (case py_lower v2 of
        Inl e \<Rightarrow> Inl e
      | Inr username \<Rightarrow>
     (case py_get user ''email'' (PStr []) of
        Inl e \<Rightarrow> Inl e
      | Inr v3 \<Rightarrow>
     (case py_lower v3 of
        Inl e \<Rightarrow> Inl e
      | Inr email \<Rightarrow>
          if str_in query_lower full_name \<or> str_in query_lower username
             \<or> str_in query_lower email
          then
            (case (py_get user ''id'' PNone, py_get user ''username'' PNone,
                   py_get user ''full_name'' PNone, py_get user ''email'' PNone,
                   py_get member ''role_name'' PNone, py_get user ''is_active'' (PBool False)) of
               (Inr i, Inr u, Inr f, Inr m, Inr r, Inr a) \<Rightarrow>
                 Inr (Some [(''id'', i), (''username'', u), (''full_name'', f), (''email'', m),
                            (''role'', r), (''is_active'', a)])
             | _ \<Rightarrow> Inl (no_attribute member ''get''))
          else Inr None)))))))"

fun members_loop :: "string \<Rightarrow> pyval list \<Rightarrow> pydict list \<Rightarrow> exc + pydict list" where
  "members_loop query_lower [] matching_users = Inr matching_users"
| "members_loop query_lower (member # members) matching_users =
     (case member_match query_lower member of
        Inl e \<Rightarrow> Inl e
      | Inr None \<Rightarrow> members_loop query_lower members matching_users
      | Inr (Some user) \<Rightarrow> members_loop query_lower members (matching_users @ [user]))"

definition search_users ::
  "'b taiga_api \<Rightarrow> string \<Rightarrow> int \<Rightarrow> string \<Rightarrow> 'b world \<Rightarrow> (exc + pydict list) \<times> 'b world" where
  "search_users api session_id project_id query w =
     (case get_authenticated_client (active_sessions w) session_id of
        Inl e \<Rightarrow> (Inl e, w)
      | Inr taiga_client_wrapper \<Rightarrow>
          (case memberships_list api taiga_client_wrapper [(''project'', PInt project_id)]
                  (backend w) of
             (r, b') \<Rightarrow>
               (let w1 = w\<lparr>backend := b',
                            calls := calls w @ [CallMembershipsList [(''project'', PInt project_id)]]\<rparr>
                in case (case r of Inl e \<Rightarrow> Inl e
                                 | Inr members \<Rightarrow> members_loop (lower query) members []) of
                     Inl e \<Rightarrow> (Inl (except_handlers ''searching'' ''users'' query e), w1)
                   | Inr matching_users \<Rightarrow> (Inr matching_users, w1))))"

text \<open>
  The handlers of \<open>assign_task_by_username\<close>: a \<open>ValueError\<close> is raised again; for any
  other exception \<open>handle_general_exception\<close> is called with three arguments instead of
  four, which raises \<open>TypeError\<close>.
\<close>

definition assign_handlers :: "exc \<Rightarrow> exc" where
  "assign_handlers e =
     (if is_ValueError e then e
      else TypeError (''handle_general_exception() missing 1 required positional argument: ''
             @ [CHR 0x27] @ ''e'' @ [CHR 0x27]))"

text \<open>\<open>result['assigned_user'] = user\<close>: only a dict takes a string key.\<close>

fun set_item :: "pyval \<Rightarrow> string \<Rightarrow> pyval \<Rightarrow> exc + pyval" where
  "set_item (PDict kvs) k v = Inr (PDict (AList.update k v kvs))"
| "set_item (PList xs) k v = Inl (TypeError ''list indices must be integers or slices, not str'')"
| "set_item r k v =
     Inl (TypeError ([CHR 0x27] @ type_name r @ [CHR 0x27]
            @ '' object does not support item assignment''))"

definition assign_task_by_username ::
  "'b taiga_api \<Rightarrow> string \<Rightarrow> int \<Rightarrow> int \<Rightarrow> string \<Rightarrow> 'b world \<Rightarrow> (exc + pyval) \<times> 'b world" where
  "assign_task_by_username api session_id task_id project_id username w =
     (case search_users api session_id project_id username w of
        (Inl e, w1) \<Rightarrow> (Inl (assign_handlers e), w1)
      | (Inr users, w1) \<Rightarrow>
          if users = [] then
            (Inl (assign_handlers
                    (ValueError (''No user found matching '' @ [CHR 0x27] @ username @ [CHR 0x27]
                       @ '' in project '' @ str_int project_id))), w1)
          else if length users > 1 then
            (Inr (PDict
               [(''status'', PStr ''multiple_matches''),
                (''message'', PStr (''Multiple users found matching '' @ [CHR 0x27] @ username
                    @ [CHR 0x27] @ ''. Please specify:'')),
                (''users'', PList (map PDict users)),
                (''suggestion'', PStr ''Use assign_task_to_user with specific user ID'')]), w1)
          else
            (let user = hd users
             in case map_of user ''id'' of
                  None \<Rightarrow> (Inl (assign_handlers (KeyError ([CHR 0x27] @ ''id'' @ [CHR 0x27]))), w1)
                | Some user_id \<Rightarrow>
                    (case update_task api session_id task_id PNone PNone PNone PNone user_id
                            PNone PNone PNone [] w1 of
                       (Inl e, w2) \<Rightarrow> (Inl (assign_handlers e), w2)
                     | (Inr result, w2) \<Rightarrow>
                         (case set_item result ''assigned_user'' (PDict user) of
                            Inl e \<Rightarrow> (Inl (assign_handlers e), w2)
                          | Inr result' \<Rightarrow> (Inr result', w2)))))"

section \<open>Vocabulary of the statements\<close>

fun is_edit :: "api_call \<Rightarrow> bool" where
  "is_edit (CallEdit res i v d) = True"
| "is_edit c = False"

text \<open>
  The short-circuit of the update protocol (spec 4.2, step 1), as a property of the
  outcome \<open>R\<close> of a tool started in \<open>w\<close>: no edit is added to the log; with an invalid
  session nothing happens at all; with a valid one the log grows by exactly the get of
  the entity, and the tool returns what the get returned (or raises what it raised,
  through the tool's handlers).
\<close>

definition short_circuit ::
  "'b taiga_api \<Rightarrow> string \<Rightarrow> resource \<Rightarrow> string \<Rightarrow> int \<Rightarrow> 'b world
     \<Rightarrow> (exc + pyval) \<times> 'b world \<Rightarrow> bool" where
  "short_circuit api session_id res entity_type i w R =
     (filter is_edit (calls (snd R)) = filter is_edit (calls w)
      \<and> (case get_authenticated_client (active_sessions w) session_id of
            Inl e \<Rightarrow> R = (Inl e, w)
          | Inr cw \<Rightarrow>
              calls (snd R) = calls w @ [CallGet res i]
              \<and> fst R = map_sum (except_handlers ''updating'' entity_type (str_int i)) id
                          (fst (api_get api cw res i (backend w)))))"

text \<open>Backends and states for the scenarios: a backend that answers every call alike.\<close>

definition fixed_api ::
  "(exc + bool) \<Rightarrow> (exc + pyval) \<Rightarrow> (exc + pyval) \<Rightarrow> (exc + pyval) \<Rightarrow> (exc + pyval list)
     \<Rightarrow> unit taiga_api" where
  "fixed_api login_r me_r get_r edit_r members_r =
     \<lparr>auth_login = (\<lambda>host username password b. (login_r, b)),
      users_me = (\<lambda>cw b. (me_r, b)),
      api_get = (\<lambda>cw res i b. (get_r, b)),
      api_edit = (\<lambda>cw res i version changes b. (edit_r, b)),
      memberships_list = (\<lambda>cw query_params b. (members_r, b)),
      edit_name = (\<lambda>res. ''pytaigaclient.client.Resource.edit'')\<rparr>"

definition alice :: client_wrapper where
  "alice =
     \<lparr>cw_host = ''https://x.example'', cw_username = Some ''alice'', is_authenticated = True\<rparr>"

definition no_sessions :: "unit world" where
  "no_sessions = \<lparr>active_sessions = Map.empty, backend = (), calls = []\<rparr>"

definition one_session :: "unit world" where
  "one_session = \<lparr>active_sessions = [''s1'' \<mapsto> alice], backend = (), calls = []\<rparr>"

text \<open>
  The version-carrying write (spec 4.2, steps 2 to 5), as a property of the outcome \<open>R\<close>
  of a tool started in \<open>w\<close> with the handle \<open>cw\<close>: when the get returns an entity whose
  \<open>version\<close> is truthy, the log grows by exactly that get followed by one edit carrying
  that version and the changes, and the tool returns what the edit returned (or raises
  what it raised, through the tool's handlers).
\<close>

definition version_carrying_write ::
  "'b taiga_api \<Rightarrow> client_wrapper \<Rightarrow> resource \<Rightarrow> string \<Rightarrow> int \<Rightarrow> pydict \<Rightarrow> 'b world
     \<Rightarrow> (exc + pyval) \<times> 'b world \<Rightarrow> bool" where
  "version_carrying_write api cw res entity_type i changes w R =
     (\<forall>current version.
        fst (api_get api cw res i (backend w)) = Inr current \<longrightarrow>
        py_get current ''version'' PNone = Inr version \<longrightarrow>
        truthy version \<longrightarrow>
          calls (snd R) = calls w @ [CallGet res i, CallEdit res i version changes]
          \<and> fst R = map_sum (except_handlers ''updating'' entity_type (str_int i)) id
                      (fst (api_edit api cw res i version changes
                              (snd (api_get api cw res i (backend w))))))"

text \<open>
  What the tools do about the version before they write, as a property of the outcome
  \<open>R\<close>: a failing get is raised as it is when it is a \<open>TaigaException\<close>, wrapped in a
  \<open>RuntimeError\<close> otherwise; a dict whose \<open>version\<close> is missing or falsy makes the tool
  fail with an error whose text ends in the tool's version message; both times the log
  grows by the get alone. With a dict whose \<open>version\<close> is truthy the get is followed by
  the edit, provided the changes are not passed as keywords that name \<open>version\<close> a
  second time.
\<close>

definition version_precondition ::
  "'b taiga_api \<Rightarrow> client_wrapper \<Rightarrow> resource \<Rightarrow> string \<Rightarrow> bool \<Rightarrow> int \<Rightarrow> pydict \<Rightarrow> 'b world
     \<Rightarrow> (exc + pyval) \<times> 'b world \<Rightarrow> bool" where
  "version_precondition api cw res entity_type as_keywords i changes w R =
     ((\<forall>e. fst (api_get api cw res i (backend w)) = Inl e \<longrightarrow>
           fst R = Inl (if is_TaigaException e then e
                        else RuntimeError (''Server error updating '' @ entity_type @ '': ''
                               @ str_exc e))
           \<and> calls (snd R) = calls w @ [CallGet res i])
      \<and> (\<forall>current version.
           fst (api_get api cw res i (backend w)) = Inr current \<longrightarrow>
           py_get current ''version'' PNone = Inr version \<longrightarrow>
             (if truthy version
              then \<not> (as_keywords \<and> ''version'' \<in> set (map fst changes)) \<longrightarrow>
                   calls (snd R) = calls w @ [CallGet res i, CallEdit res i version changes]
              else (\<exists>e. fst R = Inl e
                        \<and> suffix (''Could not determine version for '' @ entity_type @ '' ''
                                    @ str_int i) (str_exc e))
                   \<and> calls (snd R) = calls w @ [CallGet res i])))"

text \<open>The entity of the scenarios: id 42 at version 7, assigned to user 5.\<close>

definition story42 :: pyval where
  "story42 = PDict [(''id'', PInt 42), (''version'', PInt 7), (''assigned_to'', PInt 5)]"


definition team :: "pyval list" where
  "team =
     [PDict [(''user'', PDict [(''id'', PInt 5), (''username'', PStr ''alice''),
                               (''full_name'', PStr ''Alice Ames''),
                               (''email'', PStr ''alice@x.example''), (''is_active'', PBool True)]),
             (''role_name'', PStr ''Dev'')],
      PDict [(''user'', PDict [(''id'', PInt 6), (''username'', PStr ''alan''),
                               (''full_name'', PStr ''Alan Ames''),
                               (''email'', PStr ''alan@x.example''), (''is_active'', PBool True)]),
             (''role_name'', PStr ''QA'')]]"

definition team_api :: "unit taiga_api" where
  "team_api = fixed_api (Inr True) (Inr PNone) (Inr story42) (Inr story42) (Inr team)"

text \<open>
  The same project with a third member who was invited by email and has not accepted
  yet: the membership's \<open>user\<close> is \<open>None\<close>.
\<close>

definition pending_team :: "pyval list" where
  "pending_team =
     team @ [PDict [(''user'', PNone), (''email'', PStr ''carol@x.example''),
                    (''role_name'', PStr ''Dev'')]]"

definition pending_api :: "unit taiga_api" where
  "pending_api =
     fixed_api (Inr True) (Inr PNone) (Inr story42) (Inr story42) (Inr pending_team)"

text \<open>What \<open>search_users\<close> finds in the two-member project for the query \<open>Ames\<close>.\<close>

definition ames :: "pydict list" where
  "ames =
     [[(''id'', PInt 5), (''username'', PStr ''alice''), (''full_name'', PStr ''Alice Ames''),
       (''email'', PStr ''alice@x.example''), (''role'', PStr ''Dev''), (''is_active'', PBool True)],
      [(''id'', PInt 6), (''username'', PStr ''alan''), (''full_name'', PStr ''Alan Ames''),
       (''email'', PStr ''alan@x.example''), (''role'', PStr ''QA''), (''is_active'', PBool True)]]"

section \<open>The session registry\<close>

text \<open>
  C4. \<open>get_authenticated_client\<close> returns the stored handle exactly when the session id
  is a key of the session map and the handle's \<open>is_authenticated\<close> flag is true; in every
  other case it raises \<open>PermissionError\<close>: the id never existed, the flag is false, or
  the session was logged out.
\<close>

theorem get_authenticated_client_gate:
  "(\<forall>c. get_authenticated_client sessions s = Inr c \<longleftrightarrow>
          (sessions s = Some c \<and> is_authenticated c))
   \<and> ((\<nexists>c. sessions s = Some c \<and> is_authenticated c) \<longleftrightarrow>
        get_authenticated_client sessions s =
          Inl (PermissionError (''Invalid or expired session ID: '' @ [CHR 0x27] @ s
                 @ [CHR 0x27] @ ''. Please login again.'')))
   \<and> (\<exists>m. get_authenticated_client (active_sessions (snd (logout s w))) s
            = Inl (PermissionError m))"
  by (auto simp: get_authenticated_client_def logout_def Let_def split: option.splits)

text \<open>
  C8. \<open>logout\<close> removes the entry of the session id and touches nothing else; its status
  is \<open>logged_out\<close> exactly when there was an entry. A second \<open>logout\<close> of the same id
  answers \<open>session_not_found\<close> and changes nothing. \<open>logout\<close> has no raising branch: it
  returns a status for every id, also one that never existed.
\<close>

theorem logout_twice:
  "active_sessions (snd (logout s w)) = (active_sessions w)(s := None)
   \<and> backend (snd (logout s w)) = backend w
   \<and> calls (snd (logout s w)) = calls w
   \<and> fst (logout s w) =
        PDict [(''status'', PStr (if s \<in> dom (active_sessions w) then ''logged_out''
                                   else ''session_not_found'')),
               (''session_id'', PStr s)]
   \<and> fst (logout s (snd (logout s w))) =
        PDict [(''status'', PStr ''session_not_found''), (''session_id'', PStr s)]
   \<and> active_sessions (snd (logout s (snd (logout s w)))) = active_sessions (snd (logout s w))"
  by (auto simp: logout_def Let_def)

text \<open>
  C6. When the login exchange does not succeed (it raises, or returns false), \<open>login\<close>
  raises: a \<open>ValueError\<close> or \<open>TaigaException\<close> of the exchange as it is, anything else
  as a \<open>RuntimeError\<close>. No session id is returned and the session map is unchanged.
\<close>

theorem login_failure:
  assumes "fst (auth_login api host username password (backend w)) \<noteq> Inr True"
  shows "fst (login api host username password uuid4 w) =
           Inl (case fst (auth_login api host username password (backend w)) of
                  Inl e \<Rightarrow>
                    if is_ValueError e \<or> is_TaigaException e then e
                    else RuntimeError (''An unexpected server error occurred during login: ''
                           @ str_exc e)
                | Inr ok \<Rightarrow>
                    RuntimeError (''An unexpected server error occurred during login: ''
                           @ ''Login failed for an unknown reason.''))
         \<and> active_sessions (snd (login api host username password uuid4 w)) = active_sessions w"
proof (cases "auth_login api host username password (backend w)")
  case (Pair r b')
  with assms show ?thesis
    by (cases r) (auto simp: login_def wrapper_login_def TaigaClientWrapper_def Let_def)
qed

theorem login_failure_witness:
  "fst (login (fixed_api (Inl (TaigaException ''Invalid credentials'')) (Inr PNone) (Inr PNone)
                 (Inr PNone) (Inr []))
          ''https://x.example'' ''alice'' ''wrongpw'' 7 no_sessions)
     = Inl (TaigaException ''Invalid credentials'')
   \<and> active_sessions
        (snd (login (fixed_api (Inl (TaigaException ''Invalid credentials'')) (Inr PNone)
                       (Inr PNone) (Inr PNone) (Inr []))
                ''https://x.example'' ''alice'' ''wrongpw'' 7 no_sessions)) = Map.empty"
  using login_failure [of "fixed_api (Inl (TaigaException ''Invalid credentials'')) (Inr PNone)
      (Inr PNone) (Inr PNone) (Inr [])" "''https://x.example''" "''alice''" "''wrongpw''"
      no_sessions 7]
  by (simp add: fixed_api_def no_sessions_def)



section \<open>The update protocol\<close>

lemma update_try_empty:
  "update_try api cw res name kw i [] w =
     (case api_get api cw res i (backend w) of
        (r, b') \<Rightarrow> (map_sum (except_handlers ''updating'' name (str_int i)) id r,
                     w\<lparr>backend := b', calls := calls w @ [CallGet res i]\<rparr>))"
  by (auto simp: update_try_def call_get_def split: prod.splits sum.splits)

lemma update_try_get_fails:
  assumes "kwargs \<noteq> []" and "api_get api cw res i (backend w) = (Inl e, b1)"
  shows "update_try api cw res name kw i kwargs w =
           (Inl (except_handlers ''updating'' name (str_int i) e),
            w\<lparr>backend := b1, calls := calls w @ [CallGet res i]\<rparr>)"
  using assms by (simp add: update_try_def call_get_def)

lemma update_try_no_version:
  assumes "kwargs \<noteq> []" and "api_get api cw res i (backend w) = (Inr current, b1)"
    and "py_get current ''version'' PNone = Inr v" and "\<not> truthy v"
  shows "update_try api cw res name kw i kwargs w =
           (Inl (RuntimeError (''Server error updating '' @ name @ '': ''
                   @ ''Could not determine version for '' @ name @ '' '' @ str_int i)),
            w\<lparr>backend := b1, calls := calls w @ [CallGet res i]\<rparr>)"
  using assms
  by (simp add: update_try_def call_get_def except_handlers_def handle_general_exception_def)

lemma update_try_edit:
  assumes "kwargs \<noteq> []" and "api_get api cw res i (backend w) = (Inr current, b1)"
    and "py_get current ''version'' PNone = Inr v" and "truthy v"
    and "\<not> (kw \<and> ''version'' \<in> set (map fst kwargs))"
    and "api_edit api cw res i v kwargs b1 = (r2, b2)"
  shows "update_try api cw res name kw i kwargs w =
           (map_sum (except_handlers ''updating'' name (str_int i)) id r2,
            w\<lparr>backend := b2, calls := calls w @ [CallGet res i, CallEdit res i v kwargs]\<rparr>)"
  using assms
  by (cases r2) (auto simp add: update_try_def call_get_def call_edit_def)

lemma update_not_Nil: "AList.update k v d \<noteq> []"
  by (cases d) auto

lemma dict_update_Nil: "dict_update d kwargs = [] \<longleftrightarrow> d = [] \<and> kwargs = []"
proof (induction kwargs arbitrary: d)
  case Nil
  then show ?case by (simp add: dict_update_def)
next
  case (Cons p ps)
  obtain k v where p: "p = (k, v)" by (cases p)
  have "dict_update d (p # ps) = dict_update (AList.update k v d) ps"
    by (simp add: dict_update_def p)
  with Cons.IH [of "AList.update k v d"] show ?case
    by (simp add: update_not_Nil)
qed

lemma task_update_data_all_None:
  "task_update_data PNone PNone PNone PNone PNone PNone PNone PNone [] = Inr []"
  by (simp add: task_update_data_def set_if_given_def dict_update_def)

lemma short_circuit_update_try:
  assumes "\<And>cw. get_authenticated_client (active_sessions w) session_id = Inr cw
             \<Longrightarrow> R = update_try api cw res entity_type kw i [] w"
    and "\<And>e. get_authenticated_client (active_sessions w) session_id = Inl e \<Longrightarrow> R = (Inl e, w)"
  shows "short_circuit api session_id res entity_type i w R"
proof (cases "get_authenticated_client (active_sessions w) session_id")
  case (Inl e)
  with assms(2) show ?thesis by (simp add: short_circuit_def)
next
  case (Inr cw)
  with assms(1) have "R = update_try api cw res entity_type kw i [] w" by simp
  with Inr show ?thesis
    by (simp add: short_circuit_def update_try_empty split: prod.splits)
qed

text \<open>
  C2. Called with an empty change set (for \<open>update_task\<close>: every named parameter \<open>None\<close>
  and no further keyword), each of the six update tools never issues an edit: with a
  valid session it issues the one get of the entity and returns the entity the get
  returned.
\<close>

theorem update_empty_change_set:
  "short_circuit api session_id Project ''project'' i w (update_project api session_id i [] w)
   \<and> short_circuit api session_id UserStory ''user story'' i w
       (update_user_story api session_id i [] w)
   \<and> short_circuit api session_id Issue ''issue'' i w (update_issue api session_id i [] w)
   \<and> short_circuit api session_id Epic ''epic'' i w (update_epic api session_id i [] w)
   \<and> short_circuit api session_id Milestone ''milestone'' i w
       (update_milestone api session_id i [] w)
   \<and> short_circuit api session_id Task ''task'' i w
       (update_task api session_id i PNone PNone PNone PNone PNone PNone PNone PNone [] w)"
  by (intro conjI short_circuit_update_try)
     (simp_all add: update_project_def update_user_story_def update_issue_def update_epic_def
        update_milestone_def update_task_def task_update_data_all_None)

lemma valid_s1: "get_authenticated_client (active_sessions one_session) ''s1'' = Inr alice"
  by (simp add: get_authenticated_client_def one_session_def alice_def)

lemma version_carrying_write_update_try:
  assumes "changes \<noteq> []" and "\<not> (kw \<and> ''version'' \<in> set (map fst changes))"
  shows "version_carrying_write api cw res entity_type i changes w
           (update_try api cw res entity_type kw i changes w)"
  unfolding version_carrying_write_def
proof (intro allI impI)
  fix current version
  assume g: "fst (api_get api cw res i (backend w)) = Inr current"
    and v: "py_get current ''version'' PNone = Inr version" and t: "truthy version"
  obtain b1 where g': "api_get api cw res i (backend w) = (Inr current, b1)"
    using g by (cases "api_get api cw res i (backend w)") simp
  obtain r2 b2 where e: "api_edit api cw res i version changes b1 = (r2, b2)"
    by (cases "api_edit api cw res i version changes b1")
  show "calls (snd (update_try api cw res entity_type kw i changes w))
          = calls w @ [CallGet res i, CallEdit res i version changes]
        \<and> fst (update_try api cw res entity_type kw i changes w)
          = map_sum (except_handlers ''updating'' entity_type (str_int i)) id
              (fst (api_edit api cw res i version changes
                      (snd (api_get api cw res i (backend w)))))"
    by (simp add: update_try_edit [OF assms(1) g' v t assms(2) e] g' e)
qed

lemma version_precondition_update_try:
  assumes "changes \<noteq> []"
  shows "version_precondition api cw res entity_type kw i changes w
           (update_try api cw res entity_type kw i changes w)"
  unfolding version_precondition_def
proof (intro conjI allI impI)
  fix e
  assume g: "fst (api_get api cw res i (backend w)) = Inl e"
  obtain b1 where g': "api_get api cw res i (backend w) = (Inl e, b1)"
    using g by (cases "api_get api cw res i (backend w)") simp
  show "fst (update_try api cw res entity_type kw i changes w)
          = Inl (if is_TaigaException e then e
                 else RuntimeError (''Server error updating '' @ entity_type @ '': '' @ str_exc e))"
    by (simp add: update_try_get_fails [OF assms g'] except_handlers_def
          handle_taiga_exception_def handle_general_exception_def)
  show "calls (snd (update_try api cw res entity_type kw i changes w)) = calls w @ [CallGet res i]"
    by (simp add: update_try_get_fails [OF assms g'])
next
  fix current version
  assume g: "fst (api_get api cw res i (backend w)) = Inr current"
    and v: "py_get current ''version'' PNone = Inr version"
  obtain b1 where g': "api_get api cw res i (backend w) = (Inr current, b1)"
    using g by (cases "api_get api cw res i (backend w)") simp
  show "if truthy version
        then \<not> (kw \<and> ''version'' \<in> set (map fst changes)) \<longrightarrow>
             calls (snd (update_try api cw res entity_type kw i changes w))
               = calls w @ [CallGet res i, CallEdit res i version changes]
        else (\<exists>e. fst (update_try api cw res entity_type kw i changes w) = Inl e
                  \<and> suffix (''Could not determine version for '' @ entity_type @ '' ''
                              @ str_int i) (str_exc e))
             \<and> calls (snd (update_try api cw res entity_type kw i changes w))
               = calls w @ [CallGet res i]"
  proof (cases "truthy version")
    case True
    obtain r2 b2 where e: "api_edit api cw res i version changes b1 = (r2, b2)"
      by (cases "api_edit api cw res i version changes b1")
    from True show ?thesis
      by (auto simp: update_try_edit [OF assms g' v True _ e])
  next
    case False
    let ?v = "''Could not determine version for '' @ entity_type @ '' '' @ str_int i"
    let ?e = "RuntimeError ((''Server error updating '' @ entity_type @ '': '') @ ?v)"
    have r: "update_try api cw res entity_type kw i changes w
               = (Inl ?e, w\<lparr>backend := b1, calls := calls w @ [CallGet res i]\<rparr>)"
      using update_try_no_version [OF assms g' v False] by simp
    have "suffix ?v (str_exc ?e)"
      unfolding str_exc.simps by (rule suffixI) (rule refl)
    then have "\<exists>e. fst (update_try api cw res entity_type kw i changes w) = Inl e
                 \<and> suffix ?v (str_exc e)"
      unfolding r fst_conv by (intro exI [of _ ?e] conjI refl)
    moreover have "calls (snd (update_try api cw res entity_type kw i changes w))
                     = calls w @ [CallGet res i]"
      unfolding r by simp
    ultimately show ?thesis
      using False by (simp only: if_False conj_commute simp_thms)
  qed
qed

text \<open>
  C1 (as amended). With a valid session and a non-empty change set, when the get of
  the entity returns an entity whose \<open>version\<close> is truthy, each update tool issues
  exactly one get followed by exactly one edit, and the edit carries the version the
  get returned. For the four tools that pass the changes to \<open>edit\<close> as keywords the
  changes must not name \<open>version\<close>. For \<open>update_task\<close> the change set is the dict it
  builds from its parameters.
\<close>

theorem update_carries_fetched_version:
  assumes "get_authenticated_client (active_sessions w) session_id = Inr cw"
    and "kwargs \<noteq> []"
  shows "(''version'' \<notin> set (map fst kwargs) \<longrightarrow>
            version_carrying_write api cw Project ''project'' i kwargs w
              (update_project api session_id i kwargs w))
         \<and> (''version'' \<notin> set (map fst kwargs) \<longrightarrow>
            version_carrying_write api cw UserStory ''user story'' i kwargs w
              (update_user_story api session_id i kwargs w))
         \<and> version_carrying_write api cw Issue ''issue'' i kwargs w
              (update_issue api session_id i kwargs w)
         \<and> (''version'' \<notin> set (map fst kwargs) \<longrightarrow>
            version_carrying_write api cw Epic ''epic'' i kwargs w
              (update_epic api session_id i kwargs w))
         \<and> (''version'' \<notin> set (map fst kwargs) \<longrightarrow>
            version_carrying_write api cw Milestone ''milestone'' i kwargs w
              (update_milestone api session_id i kwargs w))
         \<and> (\<forall>update_data.
              task_update_data subject description due_date tags assigned_to milestone_id
                status_id user_story_id extra = Inr update_data \<longrightarrow>
              update_data \<noteq> [] \<longrightarrow>
              version_carrying_write api cw Task ''task'' i update_data w
                (update_task api session_id i subject description due_date tags assigned_to
                   milestone_id status_id user_story_id extra w))"
  using assms
  by (auto simp: update_project_def update_user_story_def update_issue_def update_epic_def
        update_milestone_def update_task_def intro!: version_carrying_write_update_try)

theorem update_carries_fetched_version_witness:
  "calls (snd (update_user_story
                 (fixed_api (Inr True) (Inr PNone) (Inr story42) (Inr story42) (Inr []))
                 ''s1'' 42 [(''subject'', PStr ''New title'')] one_session))
     = [CallGet UserStory 42, CallEdit UserStory 42 (PInt 7) [(''subject'', PStr ''New title'')]]
   \<and> calls (snd (update_task
                 (fixed_api (Inr True) (Inr PNone) (Inr story42) (Inr story42) (Inr []))
                 ''s1'' 42 (PStr ''New title'') PNone PNone PNone PNone PNone PNone PNone []
                 one_session))
     = [CallGet Task 42, CallEdit Task 42 (PInt 7) [(''subject'', PStr ''New title'')]]"
proof -
  let ?api = "fixed_api (Inr True) (Inr PNone) (Inr story42) (Inr story42) (Inr [])"
  have ne: "[(''subject'', PStr ''New title'')] \<noteq> []" by simp
  note t = update_carries_fetched_version [OF valid_s1 ne, of ?api 42 "PStr ''New title''"
      PNone PNone PNone PNone PNone PNone PNone "[]"]
  have g: "fst (api_get ?api alice res 42 (backend one_session)) = Inr story42" for res
    by (simp add: fixed_api_def)
  have v: "py_get story42 ''version'' PNone = Inr (PInt 7)"
    by (simp add: story42_def)
  have d: "task_update_data (PStr ''New title'') PNone PNone PNone PNone PNone PNone PNone []
             = Inr [(''subject'', PStr ''New title'')]"
    by (simp add: task_update_data_def set_if_given_def dict_update_def)
  from t g v d show ?thesis
    by (simp add: version_carrying_write_def one_session_def)
qed

text \<open>
  The claim as first stated fails: when the get raises, or the entity has no version,
  the one get is all the tool issues.
\<close>

theorem update_without_edit_counterexample:
  "calls (snd (update_user_story
                 (fixed_api (Inr True) (Inr PNone) (Inl (TaigaException ''Not found''))
                    (Inr story42) (Inr []))
                 ''s1'' 42 [(''subject'', PStr ''New title'')] one_session))
     = [CallGet UserStory 42]
   \<and> calls (snd (update_task
                 (fixed_api (Inr True) (Inr PNone) (Inr (PDict [(''id'', PInt 42)]))
                    (Inr story42) (Inr []))
                 ''s1'' 42 (PStr ''New title'') PNone PNone PNone PNone PNone PNone PNone []
                 one_session))
     = [CallGet Task 42]"
  by (simp add: update_user_story_def update_task_def get_authenticated_client_def alice_def
        update_try_def call_get_def fixed_api_def one_session_def task_update_data_def
        set_if_given_def dict_update_def)

text \<open>
  C7 (as amended). With a valid session and a non-empty change set: when the get
  raises, each update tool fails with the get's own error (a \<open>TaigaException\<close> as it
  is, anything else wrapped in a \<open>RuntimeError\<close>), not with a version error; when the
  get returns a dict whose \<open>version\<close> is missing or falsy, the tool fails with an error
  whose text ends in \<open>Could not determine version for\<close>, the entity's name and its id.
  In both cases the get is the only call issued, so no edit is issued. When the get
  returns a dict whose \<open>version\<close> is truthy, and for the four tools that pass the
  changes to \<open>edit\<close> as keywords the changes do not name \<open>version\<close>, the get is
  followed by the edit. For \<open>update_task\<close> the change set is the dict it builds from
  its parameters.
\<close>

theorem update_version_precondition:
  assumes "get_authenticated_client (active_sessions w) session_id = Inr cw"
    and "kwargs \<noteq> []"
  shows "version_precondition api cw Project ''project'' True i kwargs w
           (update_project api session_id i kwargs w)
         \<and> version_precondition api cw UserStory ''user story'' True i kwargs w
             (update_user_story api session_id i kwargs w)
         \<and> version_precondition api cw Issue ''issue'' False i kwargs w
             (update_issue api session_id i kwargs w)
         \<and> version_precondition api cw Epic ''epic'' True i kwargs w
             (update_epic api session_id i kwargs w)
         \<and> version_precondition api cw Milestone ''milestone'' True i kwargs w
             (update_milestone api session_id i kwargs w)
         \<and> (\<forall>update_data.
              task_update_data subject description due_date tags assigned_to milestone_id
                status_id user_story_id extra = Inr update_data \<longrightarrow>
              update_data \<noteq> [] \<longrightarrow>
              version_precondition api cw Task ''task'' False i update_data w
                (update_task api session_id i subject description due_date tags assigned_to
                   milestone_id status_id user_story_id extra w))"
  using assms
  by (auto simp: update_project_def update_user_story_def update_issue_def update_epic_def
        update_milestone_def update_task_def intro!: version_precondition_update_try)

theorem update_version_precondition_witness:
  "(fst (update_issue
          (fixed_api (Inr True) (Inr PNone) (Inl (OtherException ''timed out'')) (Inr story42)
             (Inr []))
          ''s1'' 42 [(''subject'', PStr ''New title'')] one_session)
     = Inl (RuntimeError ''Server error updating issue: timed out'')
    \<and> calls (snd (update_issue
          (fixed_api (Inr True) (Inr PNone) (Inl (OtherException ''timed out'')) (Inr story42)
             (Inr []))
          ''s1'' 42 [(''subject'', PStr ''New title'')] one_session))
     = [CallGet Issue 42])
   \<and> ((\<exists>e. fst (update_epic
          (fixed_api (Inr True) (Inr PNone) (Inr (PDict [(''id'', PInt 42)])) (Inr story42)
             (Inr []))
          ''s1'' 42 [(''subject'', PStr ''New title'')] one_session) = Inl e
         \<and> suffix ''Could not determine version for epic 42'' (str_exc e))
    \<and> calls (snd (update_epic
          (fixed_api (Inr True) (Inr PNone) (Inr (PDict [(''id'', PInt 42)])) (Inr story42)
             (Inr []))
          ''s1'' 42 [(''subject'', PStr ''New title'')] one_session))
     = [CallGet Epic 42])"
proof -
  let ?down = "fixed_api (Inr True) (Inr PNone) (Inl (OtherException ''timed out''))
                 (Inr story42) (Inr [])"
  let ?bare = "fixed_api (Inr True) (Inr PNone) (Inr (PDict [(''id'', PInt 42)]))
                 (Inr story42) (Inr [])"
  have ne: "[(''subject'', PStr ''New title'')] \<noteq> []" by simp
  have g1: "fst (api_get ?down alice Issue 42 (backend one_session))
              = Inl (OtherException ''timed out'')"
    by (simp add: fixed_api_def)
  have g2: "fst (api_get ?bare alice Epic 42 (backend one_session))
              = Inr (PDict [(''id'', PInt 42)])"
    by (simp add: fixed_api_def)
  have v: "py_get (PDict [(''id'', PInt 42)]) ''version'' PNone = Inr PNone"
    by simp
  from update_version_precondition [OF valid_s1 ne, of ?down 42] g1
  have a: "fst (update_issue ?down ''s1'' 42 [(''subject'', PStr ''New title'')] one_session)
             = Inl (RuntimeError ''Server error updating issue: timed out'')
           \<and> calls (snd (update_issue ?down ''s1'' 42 [(''subject'', PStr ''New title'')]
                           one_session)) = [CallGet Issue 42]"
    by (simp add: version_precondition_def one_session_def)
  from update_version_precondition [OF valid_s1 ne, of ?bare 42] g2 v
  have b: "(\<exists>e. fst (update_epic ?bare ''s1'' 42 [(''subject'', PStr ''New title'')]
                       one_session) = Inl e
                \<and> suffix ''Could not determine version for epic 42'' (str_exc e))
           \<and> calls (snd (update_epic ?bare ''s1'' 42 [(''subject'', PStr ''New title'')]
                           one_session)) = [CallGet Epic 42]"
    by (simp add: version_precondition_def one_session_def str_int_def str_nat.simps)
  from a b show ?thesis by (rule conjI)
qed

text \<open>
  The claim as first stated fails in both directions: a failing get surfaces as the
  backend's error, and an entity that carries the version field, with value 0, raises
  the version error.
\<close>

theorem fetch_failure_counterexample:
  "fst (update_issue
          (fixed_api (Inr True) (Inr PNone) (Inl (TaigaException ''Not found'')) (Inr story42)
             (Inr []))
          ''s1'' 42 [(''subject'', PStr ''New title'')] one_session)
     = Inl (TaigaException ''Not found'')
   \<and> fst (update_issue
          (fixed_api (Inr True) (Inr PNone)
             (Inr (PDict [(''id'', PInt 42), (''version'', PInt 0)])) (Inr story42) (Inr []))
          ''s1'' 42 [(''subject'', PStr ''New title'')] one_session)
     = Inl (RuntimeError ''Server error updating issue: Could not determine version for issue 42'')"
  by (simp add: update_issue_def get_authenticated_client_def alice_def update_try_def
        call_get_def fixed_api_def one_session_def except_handlers_def
        handle_taiga_exception_def handle_general_exception_def str_int_def str_nat.simps)

section \<open>Unassigning\<close>

lemma unassign_task_from_user_short_circuit:
  "short_circuit api session_id Task ''task'' i w (unassign_task_from_user api session_id i w)"
  by (rule short_circuit_update_try)
     (simp_all add: unassign_task_from_user_def update_task_def task_update_data_all_None)

text \<open>
  C3. \<open>unassign_task_from_user\<close> on task 42, assigned to user 5, with a valid session:
  the tool issues the get alone and returns the task as fetched, still assigned;
  \<open>update_task\<close> drops \<open>assigned_to=None\<close> with the parameters that were not given.
  \<open>unassign_user_story_from_user\<close> on the same input issues the edit that sets
  \<open>assigned_to\<close> to \<open>None\<close>.
\<close>

theorem unassign_task_reads_only:
  "unassign_task_from_user
     (fixed_api (Inr True) (Inr PNone) (Inr story42)
        (Inr (PDict [(''id'', PInt 42), (''version'', PInt 8), (''assigned_to'', PNone)]))
        (Inr []))
     ''s1'' 42 one_session
     = (Inr story42, one_session\<lparr>calls := [CallGet Task 42]\<rparr>)
   \<and> unassign_user_story_from_user
     (fixed_api (Inr True) (Inr PNone) (Inr story42)
        (Inr (PDict [(''id'', PInt 42), (''version'', PInt 8), (''assigned_to'', PNone)]))
        (Inr []))
     ''s1'' 42 one_session
     = (Inr (PDict [(''id'', PInt 42), (''version'', PInt 8), (''assigned_to'', PNone)]),
        one_session\<lparr>calls := [CallGet UserStory 42,
                                 CallEdit UserStory 42 (PInt 7) [(''assigned_to'', PNone)]]\<rparr>)"
  by (simp add: unassign_task_from_user_def unassign_user_story_from_user_def update_task_def
        update_user_story_def get_authenticated_client_def alice_def update_try_def call_get_def
        call_edit_def fixed_api_def one_session_def task_update_data_def set_if_given_def
        dict_update_def story42_def)

section \<open>Session identifiers\<close>















section \<open>Assigning a task by user name\<close>

lemma search_users_found:
  assumes "get_authenticated_client (active_sessions w) session_id = Inr cw"
    and "memberships_list api cw [(''project'', PInt project_id)] (backend w) = (Inr members, b')"
    and "members_loop (lower username) members [] = Inr users"
  shows "search_users api session_id project_id username w
           = (Inr users, w\<lparr>backend := b',
                calls := calls w @ [CallMembershipsList [(''project'', PInt project_id)]]\<rparr>)"
  using assms by (simp add: search_users_def Let_def)

text \<open>
  When the members were listed and searched without error: more than one match answers
  \<open>multiple_matches\<close>, no match raises \<open>ValueError\<close>, and the listing is the only call.
\<close>

lemma assign_task_by_username_when_searched:
  assumes "get_authenticated_client (active_sessions w) session_id = Inr cw"
    and "memberships_list api cw [(''project'', PInt project_id)] (backend w) = (Inr members, b')"
    and "members_loop (lower username) members [] = Inr users"
  shows "(length users > 1 \<longrightarrow>
            assign_task_by_username api session_id task_id project_id username w
              = (Inr (PDict
                   [(''status'', PStr ''multiple_matches''),
                    (''message'', PStr (''Multiple users found matching '' @ [CHR 0x27] @ username
                        @ [CHR 0x27] @ ''. Please specify:'')),
                    (''users'', PList (map PDict users)),
                    (''suggestion'', PStr ''Use assign_task_to_user with specific user ID'')]),
                 w\<lparr>backend := b',
                   calls := calls w @ [CallMembershipsList [(''project'', PInt project_id)]]\<rparr>))
         \<and> (users = [] \<longrightarrow>
            assign_task_by_username api session_id task_id project_id username w
              = (Inl (ValueError (''No user found matching '' @ [CHR 0x27] @ username
                        @ [CHR 0x27] @ '' in project '' @ str_int project_id)),
                 w\<lparr>backend := b',
                   calls := calls w @ [CallMembershipsList [(''project'', PInt project_id)]]\<rparr>))"
  by (auto simp: assign_task_by_username_def search_users_found [OF assms] assign_handlers_def)

lemma loop_ames: "members_loop (lower ''Ames'') team [] = Inr ames"
  by code_simp

lemma loop_pending_ames:
  "members_loop (lower ''Ames'') pending_team []
     = Inl (AttributeError ([CHR 0x27] @ ''NoneType'' @ [CHR 0x27] @ '' object has no attribute ''
              @ [CHR 0x27] @ ''get'' @ [CHR 0x27]))"
  by code_simp

lemma loop_pending_zed:
  "members_loop (lower ''zed'') pending_team []
     = Inl (AttributeError ([CHR 0x27] @ ''NoneType'' @ [CHR 0x27] @ '' object has no attribute ''
              @ [CHR 0x27] @ ''get'' @ [CHR 0x27]))"
  by code_simp

text \<open>
  C10. \<open>assign_task_by_username\<close> with a valid session, on a project where two
  members match \<open>Ames\<close> and a third membership is a pending invitation: \<open>search_users\<close>
  raises on the membership without a user, the handler of \<open>assign_task_by_username\<close>
  calls \<open>handle_general_exception\<close> with three arguments, and the tool raises
  \<open>TypeError\<close> where \<open>multiple_matches\<close> was due; for a query that matches nobody it
  raises \<open>TypeError\<close> where \<open>ValueError\<close> was due. The listing of the memberships is the
  only call issued. Without the pending invitation the same query answers
  \<open>multiple_matches\<close>.
\<close>

theorem assign_task_by_username_pending_member:
  "fst (assign_task_by_username pending_api ''s1'' 42 1 ''Ames'' one_session)
     = Inl (TypeError (''handle_general_exception() missing 1 required positional argument: ''
              @ [CHR 0x27] @ ''e'' @ [CHR 0x27]))
   \<and> fst (assign_task_by_username pending_api ''s1'' 42 1 ''zed'' one_session)
     = Inl (TypeError (''handle_general_exception() missing 1 required positional argument: ''
              @ [CHR 0x27] @ ''e'' @ [CHR 0x27]))
   \<and> calls (snd (assign_task_by_username pending_api ''s1'' 42 1 ''Ames'' one_session))
     = [CallMembershipsList [(''project'', PInt 1)]]
   \<and> fst (assign_task_by_username team_api ''s1'' 42 1 ''Ames'' one_session)
     = Inr (PDict
          [(''status'', PStr ''multiple_matches''),
           (''message'', PStr (''Multiple users found matching '' @ [CHR 0x27] @ ''Ames''
               @ [CHR 0x27] @ ''. Please specify:'')),
           (''users'', PList (map PDict ames)),
           (''suggestion'', PStr ''Use assign_task_to_user with specific user ID'')])"
proof -
  have p: "memberships_list pending_api cw query_params b = (Inr pending_team, b)" for cw query_params b
    by (simp add: pending_api_def fixed_api_def)
  have a: "search_users pending_api ''s1'' 1 q one_session
             = (case members_loop (lower q) pending_team [] of
                  Inl e \<Rightarrow> (Inl (except_handlers ''searching'' ''users'' q e),
                            one_session\<lparr>backend := (),
                              calls := calls one_session
                                @ [CallMembershipsList [(''project'', PInt 1)]]\<rparr>)
                | Inr us \<Rightarrow> (Inr us,
                            one_session\<lparr>backend := (),
                              calls := calls one_session
                                @ [CallMembershipsList [(''project'', PInt 1)]]\<rparr>))" for q
    by (simp add: search_users_def valid_s1 p Let_def split: sum.splits)
  have m: "memberships_list team_api alice [(''project'', PInt 1)] (backend one_session)
             = (Inr team, ())"
    by (simp add: team_api_def fixed_api_def)
  have two: "length ames > 1" by (simp add: ames_def)
  have c1: "fst (assign_task_by_username pending_api ''s1'' 42 1 ''Ames'' one_session)
     = Inl (TypeError (''handle_general_exception() missing 1 required positional argument: ''
              @ [CHR 0x27] @ ''e'' @ [CHR 0x27]))"
    by (simp add: assign_task_by_username_def a loop_pending_ames assign_handlers_def
          except_handlers_def handle_general_exception_def)
  have c2: "fst (assign_task_by_username pending_api ''s1'' 42 1 ''zed'' one_session)
     = Inl (TypeError (''handle_general_exception() missing 1 required positional argument: ''
              @ [CHR 0x27] @ ''e'' @ [CHR 0x27]))"
    by (simp add: assign_task_by_username_def a loop_pending_zed assign_handlers_def
          except_handlers_def handle_general_exception_def)
  have full: "assign_task_by_username pending_api ''s1'' 42 1 ''Ames'' one_session
     = (Inl (TypeError (''handle_general_exception() missing 1 required positional argument: ''
              @ [CHR 0x27] @ ''e'' @ [CHR 0x27])),
        one_session\<lparr>backend := (),
          calls := calls one_session @ [CallMembershipsList [(''project'', PInt 1)]]\<rparr>)"
    by (simp add: assign_task_by_username_def a loop_pending_ames assign_handlers_def
          except_handlers_def handle_general_exception_def)
  have c3: "calls (snd (assign_task_by_username pending_api ''s1'' 42 1 ''Ames'' one_session))
     = [CallMembershipsList [(''project'', PInt 1)]]"
    unfolding full by (simp add: one_session_def)
  have c4: "fst (assign_task_by_username team_api ''s1'' 42 1 ''Ames'' one_session)
     = Inr (PDict
          [(''status'', PStr ''multiple_matches''),
           (''message'', PStr (''Multiple users found matching '' @ [CHR 0x27] @ ''Ames''
               @ [CHR 0x27] @ ''. Please specify:'')),
           (''users'', PList (map PDict ames)),
           (''suggestion'', PStr ''Use assign_task_to_user with specific user ID'')])"
    using assign_task_by_username_when_searched [OF valid_s1 m loop_ames, of 42] two by simp
  from c1 c2 c3 c4 show ?thesis by (intro conjI)
qed

end
